theory Spec2Isabelle
  imports Complex_Main
begin

section \<open>Numbers and score slots\<close>

text \<open>
  The scoring code reads every score slot of a school with \<^verbatim>\<open>parseInt(school[key], 10)\<close>
  or \<^verbatim>\<open>parseFloat(school[key])\<close>.  A slot is modelled as the string the table editor
  stored in it; a key the row does not carry reads as \<^verbatim>\<open>undefined\<close>, which both parsers
  first turn into the text \<^verbatim>\<open>undefined\<close>.

  Numbers are exact: \<open>parseInt\<close> yields an unbounded integer or NaN (\<open>None\<close>),
  \<open>parseFloat\<close> yields NaN, an exact rational or an infinity, and sums, products,
  quotients and comparisons are those of the rationals.  The rounding of IEEE doubles
  is not part of the model: every formula and threshold below is read in exact
  arithmetic, and a double that the code computes can differ from the exact value in
  its last bit (which matters only for a value that lies exactly on a threshold or on
  a rounding tie).  Strings are byte strings (UTF-8); only the ASCII white space
  characters are skipped in front of a number.
\<close>

type_synonym field = string

definition isWhiteSpace :: "char \<Rightarrow> bool" where
  "isWhiteSpace c \<longleftrightarrow> c \<in> {CHR 0x20, CHR 0x09, CHR 0x0A, CHR 0x0B, CHR 0x0C, CHR 0x0D}"

definition isDigit :: "char \<Rightarrow> bool" where
  "isDigit c \<longleftrightarrow> (48::nat) \<le> of_char c \<and> of_char c \<le> (57::nat)"

definition digitVal :: "char \<Rightarrow> nat" where
  "digitVal c = of_char c - 48"

definition digitsValue :: "string \<Rightarrow> nat" where
  "digitsValue ds = foldl (\<lambda>acc c. 10 * acc + digitVal c) 0 ds"

text \<open>The optional sign in front of a numeric literal: is it negative, and what follows.\<close>

fun stripSign :: "string \<Rightarrow> bool \<times> string" where
  "stripSign [] = (False, [])"
| "stripSign (c # r) =
     (if c = CHR ''-'' then (True, r) else if c = CHR ''+'' then (False, r) else (False, c # r))"

text \<open>\<^verbatim>\<open>parseInt(str, 10)\<close>: white space, a sign, the longest run of decimal digits.\<close>

definition parseInt :: "string \<Rightarrow> int option" where
  "parseInt str =
     (let (neg, s) = stripSign (dropWhile isWhiteSpace str);
          z = takeWhile isDigit s
      in if z = [] then None
         else Some ((if neg then - 1 else 1) * int (digitsValue z)))"

text \<open>
  \<^verbatim>\<open>parseInt(str)\<close> without a radix, as the student count and the scores of a report
  card are read: a \<^verbatim>\<open>0x\<close> prefix selects base 16, everything else is base 10.
\<close>

definition isHexDigit :: "char \<Rightarrow> bool" where
  "isHexDigit c \<longleftrightarrow> isDigit c
     \<or> ((97::nat) \<le> of_char c \<and> of_char c \<le> (102::nat))
     \<or> ((65::nat) \<le> of_char c \<and> of_char c \<le> (70::nat))"

definition hexVal :: "char \<Rightarrow> nat" where
  "hexVal c = (if isDigit c then digitVal c
               else if (97::nat) \<le> of_char c then of_char c - 87 else of_char c - 55)"

definition parseIntNoRadix :: "string \<Rightarrow> int option" where
  "parseIntNoRadix str =
     (let (neg, s) = stripSign (dropWhile isWhiteSpace str);
          sgn = (if neg then - 1 else 1)
      in if take 2 s = ''0x'' \<or> take 2 s = ''0X'' then
           (let z = takeWhile isHexDigit (drop 2 s)
            in if z = [] then None
               else Some (sgn * int (foldl (\<lambda>acc c. 16 * acc + hexVal c) 0 z)))
         else
           (let z = takeWhile isDigit s
            in if z = [] then None else Some (sgn * int (digitsValue z))))"

text \<open>\<^verbatim>\<open>n || 0\<close> on the result of \<open>parseInt\<close>.\<close>

definition orZeroInt :: "int option \<Rightarrow> int" where
  "orZeroInt x = (case x of None \<Rightarrow> 0 | Some n \<Rightarrow> n)"

datatype jsnum = NaN | Fin rat | PInf | NInf

text \<open>The exponent part of a decimal literal (\<^verbatim>\<open>e\<close>, a sign, digits), 0 when there is none.\<close>

definition exponentPart :: "string \<Rightarrow> int" where
  "exponentPart s =
     (case s of
        [] \<Rightarrow> 0
      | c # r \<Rightarrow>
          if c = CHR ''e'' \<or> c = CHR ''E'' then
            (let (neg, ds) = stripSign r; z = takeWhile isDigit ds
             in if z = [] then 0 else (if neg then - 1 else 1) * int (digitsValue z))
          else 0)"

definition pow10 :: "int \<Rightarrow> rat" where
  "pow10 e = (if 0 \<le> e then 10 ^ nat e else 1 / 10 ^ nat (- e))"

text \<open>
  \<^verbatim>\<open>parseFloat(str)\<close>: white space, a sign, then \<^verbatim>\<open>Infinity\<close> or the longest prefix
  that is a decimal literal: digits, an optional fraction, an optional exponent.
\<close>

definition parseFloat :: "string \<Rightarrow> jsnum" where
  "parseFloat str =
     (let (neg, s) = stripSign (dropWhile isWhiteSpace str)
      in if take 8 s = ''Infinity'' then (if neg then NInf else PInf)
         else
           (let ip = takeWhile isDigit s;
                r1 = dropWhile isDigit s;
                hasDot = (r1 \<noteq> [] \<and> hd r1 = CHR ''.'');
                fp = (if hasDot then takeWhile isDigit (tl r1) else []);
                r2 = (if hasDot then dropWhile isDigit (tl r1) else r1)
            in if ip = [] \<and> fp = [] then NaN
               else
                 (let m = rat_of_nat (digitsValue (ip @ fp)) / 10 ^ length fp;
                      v = m * pow10 (exponentPart r2)
                  in Fin (if neg then - v else v))))"

text \<open>Arithmetic and comparison of numbers as the scoring code uses them.\<close>

fun js_add :: "jsnum \<Rightarrow> jsnum \<Rightarrow> jsnum" where
  "js_add NaN _ = NaN"
| "js_add _ NaN = NaN"
| "js_add (Fin a) (Fin b) = Fin (a + b)"
| "js_add PInf NInf = NaN"
| "js_add NInf PInf = NaN"
| "js_add PInf _ = PInf"
| "js_add _ PInf = PInf"
| "js_add NInf _ = NInf"
| "js_add _ NInf = NInf"

text \<open>Division by an array length (a finite number that is not negative).\<close>

fun js_div_length :: "jsnum \<Rightarrow> nat \<Rightarrow> jsnum" where
  "js_div_length NaN _ = NaN"
| "js_div_length (Fin a) n =
     (if n = 0 then (if a = 0 then NaN else if 0 < a then PInf else NInf)
      else Fin (a / rat_of_nat n))"
| "js_div_length PInf _ = PInf"
| "js_div_length NInf _ = NInf"

fun js_lt :: "jsnum \<Rightarrow> jsnum \<Rightarrow> bool" where
  "js_lt NaN _ = False"
| "js_lt _ NaN = False"
| "js_lt (Fin a) (Fin b) = (a < b)"
| "js_lt _ NInf = False"
| "js_lt NInf _ = True"
| "js_lt PInf _ = False"
| "js_lt _ PInf = True"

definition js_gt :: "jsnum \<Rightarrow> jsnum \<Rightarrow> bool" where
  "js_gt a b = js_lt b a"

fun js_le :: "jsnum \<Rightarrow> jsnum \<Rightarrow> bool" where
  "js_le NaN _ = False"
| "js_le _ NaN = False"
| "js_le a b = (a = b \<or> js_lt a b)"

definition js_ge :: "jsnum \<Rightarrow> jsnum \<Rightarrow> bool" where
  "js_ge a b = js_le b a"

text \<open>\<^verbatim>\<open>x || 0\<close> on a number: NaN and 0 are falsy.\<close>

definition orZero :: "jsnum \<Rightarrow> jsnum" where
  "orZero x = (if x = NaN \<or> x = Fin 0 then Fin 0 else x)"

section \<open>Schools\<close>

text \<open>
  A row of the score table.  The score slots are the fields the row carries under the
  metric keys; \<open>school_id\<close> is the field \<^verbatim>\<open>id\<close>,
  \<open>school_notes\<close> the field \<^verbatim>\<open>notes\<close>.
\<close>

record school =
  school_id :: int
  name :: string
  principal :: string
  students :: string
  supportLevel :: string
  school_notes :: string
  scores :: "field \<rightharpoonup> string"

text \<open>\<^verbatim>\<open>school[key] as string\<close>, as the parsers read it.\<close>

definition slot :: "'a school_scheme \<Rightarrow> field \<Rightarrow> string" where
  "slot s k = (case scores s k of None \<Rightarrow> ''undefined'' | Some v \<Rightarrow> v)"

record schoolForAnalysis = school +
  characterization :: string
  specificChallenges :: "string list"
  tier :: nat

section \<open>Taxonomy and catalogue\<close>

text \<open>
  The rubric: categories, their sub-categories, the metrics of each (the fields
  \<^verbatim>\<open>name\<close>, \<^verbatim>\<open>key\<close>, \<^verbatim>\<open>subCategories\<close>, \<^verbatim>\<open>metrics\<close> that the code reads).
\<close>

record metric =
  metric_key :: field
  metric_name :: string

record subCategory =
  subCat_name :: string
  metrics :: "metric list"

record category =
  cat_name :: string
  subCategories :: "subCategory list"

datatype issueCategory = Pedagogical | Organizational | Community | Strategic

text \<open>An entry of \<^verbatim>\<open>issuesAndGoalsData\<close> (\<^verbatim>\<open>FullSystemicIssue\<close>).\<close>

record fullSystemicIssue =
  fsi_id :: string
  title :: string
  principalGoal :: string
  fsi_category :: issueCategory

text \<open>
  The tables of \<^verbatim>\<open>../constants\<close> and \<^verbatim>\<open>../data/issuesAndGoalsData\<close> are configuration
  data; every function takes them as a parameter, collected in one record.
\<close>

record constants =
  ALL_SCORE_FIELDS :: "field list"
  HIERARCHICAL_CATEGORIES :: "category list"
  METRIC_TO_CHALLENGE_MAP :: "string \<rightharpoonup> string"
  FIELD_HEBREW_MAP :: "string \<rightharpoonup> string"
  BOOKLET_ISSUE_TO_METRICS_MAP :: "string \<rightharpoonup> field list"
  BOOKLET_TO_PLAN_ISSUES_MAP :: "string \<rightharpoonup> string list"
  issuesAndGoalsData :: "fullSystemicIssue list"

text \<open>\<^verbatim>\<open>TABLE[key] || []\<close>.\<close>

definition lookupList :: "('k \<rightharpoonup> 'v list) \<Rightarrow> 'k \<Rightarrow> 'v list" where
  "lookupList m k = (case m k of None \<Rightarrow> [] | Some xs \<Rightarrow> xs)"

section \<open>Tiering (performAnalysis)\<close>

definition getTier :: "constants \<Rightarrow> 'a school_scheme \<Rightarrow> nat" where
  "getTier C s =
     (let allScores = filter (\<lambda>score. js_gt score (Fin 0))
                        (map (\<lambda>f. orZero (parseFloat (slot s f))) (ALL_SCORE_FIELDS C))
      in if length allScores < 5 then 2
         else
           (let overallAverage = js_div_length (foldl js_add (Fin 0) allScores) (length allScores);
                criticalScoresCount = length (filter (\<lambda>score. js_le score (Fin (3 / 2))) allScores);
                excellentScoresCount = length (filter (\<lambda>score. js_ge score (Fin (7 / 2))) allScores)
            in if js_lt overallAverage (Fin (11 / 5)) then 3
               else if js_gt overallAverage (Fin (16 / 5)) \<and> criticalScoresCount < 2 then 1
               else 2))"

record summary =
  totalSchools :: nat
  totalStudents :: int
  lowPerformanceSchools :: nat
  excellentSchools :: nat

record performanceClassification =
  tier1 :: "schoolForAnalysis list"
  tier2 :: "schoolForAnalysis list"
  tier3 :: "schoolForAnalysis list"

text \<open>
  The result of \<^verbatim>\<open>performAnalysis\<close>.  Its remaining fields (\<^verbatim>\<open>subjectDistribution\<close>,
  \<^verbatim>\<open>challengesAnalysis\<close>, \<^verbatim>\<open>heatmapData\<close>, \<^verbatim>\<open>organizationalData\<close>,
  \<^verbatim>\<open>coreSubjectsData\<close>) are constant empty containers and are left out.
\<close>

record analysisData =
  data_schools :: "schoolForAnalysis list"
  data_summary :: summary
  data_performanceClassification :: performanceClassification

text \<open>The callback of \<^verbatim>\<open>data.map\<close>: the row, spread, with the three derived fields.\<close>

definition toSchoolForAnalysis :: "constants \<Rightarrow> school \<Rightarrow> schoolForAnalysis" where
  "toSchoolForAnalysis C s =
     \<lparr>school_id = school_id s, name = name s, principal = principal s, students = students s,
      supportLevel = supportLevel s, school_notes = school_notes s, scores = scores s,
      characterization = ''N/A'', specificChallenges = [],
      tier = getTier C s\<rparr>"

definition performAnalysis :: "constants \<Rightarrow> school list \<Rightarrow> analysisData" where
  "performAnalysis C d =
     (let schoolsForAnalysis = map (toSchoolForAnalysis C) d;
          t1 = filter (\<lambda>s. tier s = 1) schoolsForAnalysis;
          t2 = filter (\<lambda>s. tier s = 2) schoolsForAnalysis;
          t3 = filter (\<lambda>s. tier s = 3) schoolsForAnalysis;
          summ = \<lparr>totalSchools = length d,
                  totalStudents = foldl (\<lambda>acc s. acc + orZeroInt (parseIntNoRadix (students s))) 0 d,
                  lowPerformanceSchools = length t3,
                  excellentSchools = length t1\<rparr>
      in \<lparr>data_schools = schoolsForAnalysis, data_summary = summ,
          data_performanceClassification = \<lparr>tier1 = t1, tier2 = t2, tier3 = t3\<rparr>\<rparr>)"

subsection \<open>The tier rule as the specification words it\<close>

text \<open>
  \<open>S\<close> is the list of the metric scores that are set (a number was read) and positive;
  its mean is that of the extended rationals.
\<close>

definition spec_S :: "field list \<Rightarrow> 'a school_scheme \<Rightarrow> jsnum list" where
  "spec_S flds s =
     filter (\<lambda>x. x \<noteq> NaN \<and> js_gt x (Fin 0)) (map (\<lambda>f. parseFloat (slot s f)) flds)"

fun finite_part :: "jsnum \<Rightarrow> rat" where
  "finite_part (Fin r) = r"
| "finite_part _ = 0"

definition spec_mean :: "jsnum list \<Rightarrow> jsnum" where
  "spec_mean xs =
     (if PInf \<in> set xs then PInf
      else Fin (sum_list (map finite_part xs) / rat_of_nat (length xs)))"


section \<open>Aggregate dashboard\<close>

text \<open>
  The filter \<^verbatim>\<open>.filter(s => !isNaN(s) && s > 0)\<close> on the results of \<open>parseInt\<close>: the
  numbers that were read and are positive, in order.
\<close>

definition isScored :: "int option \<Rightarrow> bool" where
  "isScored x = (case x of None \<Rightarrow> False | Some n \<Rightarrow> 0 < n)"

definition positiveNumbers :: "int option list \<Rightarrow> int list" where
  "positiveNumbers xs = List.map_filter (\<lambda>x. if isScored x then x else None) xs"

text \<open>The chain \<^verbatim>\<open>.map(m => parseInt(school[m], 10)).filter(...)\<close> for one school.\<close>

definition scoredValues :: "'a school_scheme \<Rightarrow> field list \<Rightarrow> int list" where
  "scoredValues s ks = positiveNumbers (map (\<lambda>k. parseInt (slot s k)) ks)"

text \<open>\<^verbatim>\<open>xs.length > 0 ? xs.reduce((a, b) => a + b, 0) / xs.length : 0\<close>.\<close>

definition averageOrZero :: "int list \<Rightarrow> rat" where
  "averageOrZero xs =
     (if 0 < length xs then rat_of_int (foldl (+) 0 xs) / rat_of_nat (length xs) else 0)"




section \<open>Issue identification (analyzeSchoolData)\<close>

datatype severity = Critical | High | Medium | Low

record schoolIssueDetail =
  schoolId :: int
  schoolName :: string
  performanceTier :: nat
  detail_severity :: severity
  affectedMetrics :: "string list"

record issue =
  issue_id :: string
  issue_name :: string
  description :: string
  affectedSchools :: nat
  issue_totalSchools :: nat
  issue_severity :: severity
  issue_category :: issueCategory
  urgency :: int
  schoolDetails :: "schoolIssueDetail list"
  overallAverage :: rat
  tier1Average :: rat
  tier2Average :: rat
  tier3Average :: rat

text \<open>One step of the inner \<^verbatim>\<open>forEach\<close> of \<^verbatim>\<open>calculateAverageForCategory\<close>.\<close>

definition averageStep :: "'a school_scheme \<Rightarrow> field \<Rightarrow> int \<times> nat \<Rightarrow> int \<times> nat" where
  "averageStep s k acc =
     (case acc of (totalScore, scoreCount) \<Rightarrow>
        (case parseInt (slot s k) of
           None \<Rightarrow> (totalScore, scoreCount)
         | Some score \<Rightarrow>
             if 0 < score then (totalScore + score, scoreCount + 1)
             else (totalScore, scoreCount)))"

definition calculateAverageForCategory ::
  "constants \<Rightarrow> string \<Rightarrow> 'a school_scheme list \<Rightarrow> rat" where
  "calculateAverageForCategory C categoryKey schoolSet =
     (let metricsForCategory = lookupList (BOOKLET_ISSUE_TO_METRICS_MAP C) categoryKey
      in if length metricsForCategory = 0 \<or> length schoolSet = 0 then 0
         else
           (case fold (\<lambda>s. fold (averageStep s) metricsForCategory) schoolSet (0, 0) of
              (totalScore, scoreCount) \<Rightarrow>
                if 0 < scoreCount then rat_of_int totalScore / rat_of_nat scoreCount else 0))"

text \<open>\<^verbatim>\<open>str.split(' - ')\<close>; the first argument is the piece read so far.\<close>

fun splitDash :: "string \<Rightarrow> string \<Rightarrow> string list" where
  "splitDash cur (a # b # c # r) =
     (if a = CHR 0x20 \<and> b = CHR ''-'' \<and> c = CHR 0x20 then cur # splitDash [] r
      else splitDash (cur @ [a]) (b # c # r))"
| "splitDash cur r = [cur @ r]"

definition lowPerformancePrefix :: string where
  "lowPerformancePrefix =
     [CHR 0xD7, CHR 0xAA, CHR 0xD7, CHR 0xA4, CHR 0xD7, CHR 0xA7, CHR 0xD7, CHR 0x95,
      CHR 0xD7, CHR 0x93, CHR 0x20, CHR 0xD7, CHR 0xA0, CHR 0xD7, CHR 0x9E, CHR 0xD7,
      CHR 0x95, CHR 0xD7, CHR 0x9A, CHR 0x20, CHR 0xD7, CHR 0x91, CHR 0xD7, CHR 0x9E,
      CHR 0xD7, CHR 0x93, CHR 0xD7, CHR 0x93, CHR 0x3A, CHR 0x20, CHR 0x22]"

text \<open>
  The generic challenge phrase: the UTF-8 bytes of the prefix of the template string,
  the label, a closing double quote.
\<close>

definition genericChallenge :: "string \<Rightarrow> string" where
  "genericChallenge label = lowPerformancePrefix @ label @ [CHR 0x22]"

text \<open>\<^verbatim>\<open>FIELD_HEBREW_MAP[key]?.split(' - ')[1] || String(key)\<close>.\<close>

definition fieldLabel :: "constants \<Rightarrow> field \<Rightarrow> string" where
  "fieldLabel C k =
     (case FIELD_HEBREW_MAP C k of
        None \<Rightarrow> k
      | Some h \<Rightarrow>
          (case splitDash [] h of
             _ # p # _ \<Rightarrow> if p = [] then k else p
           | _ \<Rightarrow> k))"

definition affectedMetricText :: "constants \<Rightarrow> field \<Rightarrow> string" where
  "affectedMetricText C k =
     (case METRIC_TO_CHALLENGE_MAP C k of
        None \<Rightarrow> genericChallenge (fieldLabel C k)
      | Some phrase \<Rightarrow> if phrase = [] then genericChallenge (fieldLabel C k) else phrase)"

text \<open>The callback of \<^verbatim>\<open>schools.map\<close> in \<^verbatim>\<open>buildSchoolDetails\<close>; \<open>None\<close> is \<^verbatim>\<open>null\<close>.\<close>

definition schoolDetail ::
  "constants \<Rightarrow> field list \<Rightarrow> schoolForAnalysis \<Rightarrow> schoolIssueDetail option" where
  "schoolDetail C metricsForCategory s =
     (let affectedMetricsForSchool =
            filter (\<lambda>k. case parseInt (slot s k) of None \<Rightarrow> False | Some score \<Rightarrow> score \<le> 2)
                   metricsForCategory
      in if length affectedMetricsForSchool = 0 then None
         else
           (let percentage = rat_of_nat (length affectedMetricsForSchool)
                               / rat_of_nat (length metricsForCategory) * 100;
                sev = (if 70 \<le> percentage then Critical
                       else if 40 \<le> percentage then High
                       else Medium)
            in Some \<lparr>schoolId = school_id s, schoolName = name s, performanceTier = tier s,
                     detail_severity = sev,
                     affectedMetrics = map (affectedMetricText C) affectedMetricsForSchool\<rparr>))"

definition buildSchoolDetails ::
  "constants \<Rightarrow> schoolForAnalysis list \<Rightarrow> string \<Rightarrow> schoolIssueDetail list" where
  "buildSchoolDetails C schoolList categoryKey =
     (let metricsForCategory = lookupList (BOOKLET_ISSUE_TO_METRICS_MAP C) categoryKey
      in if length metricsForCategory = 0 then []
         else List.map_filter (schoolDetail C metricsForCategory) schoolList)"

text \<open>
  The two loops that count scores for one issue.  The state of the inner loop is
  \<open>(totalLowScores, totalScoresCount, hasLowScoreInIssue)\<close>, that of the outer loop
  \<open>(totalLowScores, totalScoresCount, affectedSchoolIds)\<close>.
\<close>

definition metricStep :: "'a school_scheme \<Rightarrow> field \<Rightarrow> nat \<times> nat \<times> bool \<Rightarrow> nat \<times> nat \<times> bool" where
  "metricStep s k acc =
     (case acc of (totalLowScores, totalScoresCount, hasLowScoreInIssue) \<Rightarrow>
        (case parseInt (slot s k) of
           None \<Rightarrow> (totalLowScores, totalScoresCount, hasLowScoreInIssue)
         | Some score \<Rightarrow>
             if 0 < score then
               (if score \<le> 2 then (totalLowScores + 1, totalScoresCount + 1, True)
                else (totalLowScores, totalScoresCount + 1, hasLowScoreInIssue))
             else (totalLowScores, totalScoresCount, hasLowScoreInIssue)))"

definition schoolStep ::
  "field list \<Rightarrow> 'a school_scheme \<Rightarrow> nat \<times> nat \<times> int set \<Rightarrow> nat \<times> nat \<times> int set" where
  "schoolStep metricsForCategory s acc =
     (case acc of (totalLowScores, totalScoresCount, affectedSchoolIds) \<Rightarrow>
        (case fold (metricStep s) metricsForCategory (totalLowScores, totalScoresCount, False) of
           (totalLowScores', totalScoresCount', hasLowScoreInIssue) \<Rightarrow>
             (totalLowScores', totalScoresCount',
              if hasLowScoreInIssue then insert (school_id s) affectedSchoolIds
              else affectedSchoolIds)))"

text \<open>\<^verbatim>\<open>Math.round\<close>: the nearest integer, ties upwards.\<close>

definition js_round :: "rat \<Rightarrow> int" where
  "js_round x = \<lfloor>x + 1 / 2\<rfloor>"

text \<open>The callback of \<^verbatim>\<open>relevantIssuesData.map\<close>; \<open>None\<close> is \<^verbatim>\<open>null\<close>.\<close>

definition identifyIssue ::
  "constants \<Rightarrow> schoolForAnalysis list \<Rightarrow> fullSystemicIssue \<Rightarrow> issue option" where
  "identifyIssue C schoolList issueData =
     (let metricsForCategory = lookupList (BOOKLET_ISSUE_TO_METRICS_MAP C) (fsi_id issueData)
      in case fold (schoolStep metricsForCategory) schoolList (0, 0, {}) of
           (totalLowScores, totalScoresCount, affectedSchoolIds) \<Rightarrow>
             (let affectedSchoolsCount = card affectedSchoolIds
              in if affectedSchoolsCount = 0 then None
                 else
                   (let scopeScore = rat_of_nat affectedSchoolsCount / rat_of_nat (length schoolList);
                        severityScore = rat_of_nat totalLowScores
                          / rat_of_nat (if totalScoresCount = 0 then 1 else totalScoresCount);
                        finalScore = scopeScore * (6 / 10) + severityScore * (4 / 10);
                        sev = (if 4 / 10 < finalScore then Critical
                               else if 25 / 100 < finalScore then High
                               else if 1 / 10 < finalScore then Medium
                               else Low);
                        tier1Schools = filter (\<lambda>s. tier s = 1) schoolList;
                        tier2Schools = filter (\<lambda>s. tier s = 2) schoolList;
                        tier3Schools = filter (\<lambda>s. tier s = 3) schoolList
                    in Some \<lparr>issue_id = fsi_id issueData,
                             issue_name = title issueData,
                             description = principalGoal issueData,
                             affectedSchools = affectedSchoolsCount,
                             issue_totalSchools = length schoolList,
                             issue_severity = sev,
                             issue_category = fsi_category issueData,
                             urgency = js_round (finalScore * 100),
                             schoolDetails = buildSchoolDetails C schoolList (fsi_id issueData),
                             overallAverage =
                               calculateAverageForCategory C (fsi_id issueData) schoolList,
                             tier1Average =
                               calculateAverageForCategory C (fsi_id issueData) tier1Schools,
                             tier2Average =
                               calculateAverageForCategory C (fsi_id issueData) tier2Schools,
                             tier3Average =
                               calculateAverageForCategory C (fsi_id issueData) tier3Schools\<rparr>)))"

text \<open>
  \<^verbatim>\<open>analyzeSchoolData\<close>: \<open>None\<close> when it returns before \<^verbatim>\<open>setIssues\<close>, otherwise the
  list handed to \<^verbatim>\<open>setIssues\<close>.  The sort is stable and descending by urgency.
\<close>

definition relevantIssuesData :: "constants \<Rightarrow> string list \<Rightarrow> fullSystemicIssue list" where
  "relevantIssuesData C selectedFocusAreas =
     (let relevantIssueIds =
            set (concat (map (lookupList (BOOKLET_TO_PLAN_ISSUES_MAP C)) selectedFocusAreas))
      in filter (\<lambda>i. fsi_id i \<in> relevantIssueIds) (issuesAndGoalsData C))"

definition analyzeSchoolData ::
  "constants \<Rightarrow> schoolForAnalysis list \<Rightarrow> string list \<Rightarrow> issue list option" where
  "analyzeSchoolData C schoolList selectedFocusAreas =
     (if length schoolList = 0 \<or> length selectedFocusAreas = 0 then None
      else Some (sort_key (\<lambda>i. - urgency i)
                   (List.map_filter (identifyIssue C schoolList)
                      (relevantIssuesData C selectedFocusAreas))))"

section \<open>Report card (createReportCardData)\<close>

record metricInfo =
  info_key :: field
  info_subCategory :: string
  info_name :: string
  info_score :: int

record challenge =
  challenge_subCategory :: string
  challenge_text :: string

record reportCard =
  rc_school :: schoolForAnalysis
  rc_schoolName :: string
  rc_principalName :: string
  rc_studentCount :: int
  rc_supportLevel :: string
  rc_overallAverage :: rat
  rc_performanceTier :: nat
  rc_domainAverages :: "string \<rightharpoonup> rat"
  rc_strengths :: "string list"
  rc_challenges :: "challenge list"
  rc_recommendations :: "string list"

text \<open>The metrics of a list that carry a positive score in this school, with the score.\<close>

definition metricsWithScores :: "'a school_scheme \<Rightarrow> metric list \<Rightarrow> (metric \<times> int) list" where
  "metricsWithScores s ms =
     List.map_filter
       (\<lambda>m. case parseInt (slot s (metric_key m)) of
               None \<Rightarrow> None
             | Some score \<Rightarrow> if 0 < score then Some (m, score) else None)
       ms"

text \<open>
  The body of the loop over the sub-categories that fills \<^verbatim>\<open>challenges\<close>; the last
  argument is the array before, the result the array after.
\<close>

definition challengeEntry :: "constants \<Rightarrow> subCategory \<Rightarrow> metric \<Rightarrow> challenge" where
  "challengeEntry C subCat m =
     \<lparr>challenge_subCategory = subCat_name subCat,
      challenge_text =
        (case METRIC_TO_CHALLENGE_MAP C (metric_key m) of
           None \<Rightarrow> genericChallenge (metric_name m)
         | Some challengeText \<Rightarrow>
             if challengeText = [] then genericChallenge (metric_name m) else challengeText)\<rparr>"

definition subCatChallenges ::
  "constants \<Rightarrow> 'a school_scheme \<Rightarrow> subCategory \<Rightarrow> challenge list \<Rightarrow> challenge list" where
  "subCatChallenges C s subCat challenges =
     (let subCatMetricsWithScores = metricsWithScores s (metrics subCat)
      in if length subCatMetricsWithScores = 0 then challenges
         else
           (let subCatAvg = rat_of_int (foldl (\<lambda>acc curr. acc + snd curr) 0 subCatMetricsWithScores)
                              / rat_of_nat (length subCatMetricsWithScores)
            in if subCatAvg < 7 / 2 then
                 fold (\<lambda>curr ch. if snd curr \<le> 3 then ch @ [challengeEntry C subCat (fst curr)]
                                  else ch)
                      subCatMetricsWithScores challenges
               else challenges))"

definition challengesOf :: "constants \<Rightarrow> 'a school_scheme \<Rightarrow> challenge list" where
  "challengesOf C s =
     fold (\<lambda>cat. fold (subCatChallenges C s) (subCategories cat)) (HIERARCHICAL_CATEGORIES C) []"

text \<open>
  The array \<^verbatim>\<open>scores\<close> of the report card: field and score of every field whose
  \<^verbatim>\<open>parseInt(school[field]) || 0\<close> is positive.
\<close>

definition schoolScoreItems :: "constants \<Rightarrow> 'a school_scheme \<Rightarrow> (field \<times> int) list" where
  "schoolScoreItems C s =
     filter (\<lambda>item. 0 < snd item)
       (map (\<lambda>f. (f, orZeroInt (parseIntNoRadix (slot s f)))) (ALL_SCORE_FIELDS C))"

definition notSpecified :: string where
  "notSpecified =
     [CHR 0xD7, CHR 0x9C, CHR 0xD7, CHR 0x90, CHR 0x20, CHR 0xD7, CHR 0xA6, CHR 0xD7,
      CHR 0x95, CHR 0xD7, CHR 0x99, CHR 0xD7, CHR 0x9F]"

definition createReportCardData ::
  "constants \<Rightarrow> analysisData option \<Rightarrow> int \<Rightarrow> reportCard option" where
  "createReportCardData C analysis schoolId' =
     (case analysis of
        None \<Rightarrow> None
      | Some ad \<Rightarrow>
          (case find (\<lambda>s. school_id s = schoolId') (data_schools ad) of
             None \<Rightarrow> None
           | Some s \<Rightarrow>
               (let scoreItems = schoolScoreItems C s;
                    average = averageOrZero (map snd scoreItems);
                    domainAverages =
                      fold (\<lambda>cat da.
                              let catFields = concat (map (\<lambda>sc. map metric_key (metrics sc))
                                                          (subCategories cat));
                                  catScores = map snd (filter (\<lambda>item. fst item \<in> set catFields)
                                                              scoreItems)
                              in da(cat_name cat \<mapsto> averageOrZero catScores))
                           (HIERARCHICAL_CATEGORIES C) Map.empty;
                    allMetricsWithInfo =
                      concat (map (\<lambda>cat.
                        concat (map (\<lambda>subCat.
                          map (\<lambda>ms. \<lparr>info_key = metric_key (fst ms),
                                      info_subCategory = subCat_name subCat,
                                      info_name = metric_name (fst ms),
                                      info_score = snd ms\<rparr>)
                              (metricsWithScores s (metrics subCat)))
                          (subCategories cat)))
                        (HIERARCHICAL_CATEGORIES C));
                    strengths =
                      map (\<lambda>item. info_subCategory item @ '': '' @ info_name item)
                        (take 6 (sort_key (\<lambda>item. - info_score item)
                           (filter (\<lambda>item. 32 / 10 \<le> rat_of_int (info_score item))
                                   allMetricsWithInfo)))
                in Some \<lparr>rc_school = s,
                         rc_schoolName = name s,
                         rc_principalName = principal s,
                         rc_studentCount = orZeroInt (parseIntNoRadix (students s)),
                         rc_supportLevel =
                           (if supportLevel s = [] then notSpecified else supportLevel s),
                         rc_overallAverage = average,
                         rc_performanceTier = tier s,
                         rc_domainAverages = domainAverages,
                         rc_strengths = strengths,
                         rc_challenges = challengesOf C s,
                         rc_recommendations = []\<rparr>)))"

section \<open>The rules as the specification words them\<close>

subsection \<open>Issue identification\<close>

text \<open>
  For an issue with metric list \<open>M\<close>: the set positive scores of a school under \<open>M\<close> are
  \<open>scoredValues s M\<close>; \<open>totalScoresCount\<close> counts them over all schools,
  \<open>totalLowScores\<close> those that are at most 2, and a school is affected when it has one.
\<close>

definition spec_totalScoresCount :: "field list \<Rightarrow> 'a school_scheme list \<Rightarrow> nat" where
  "spec_totalScoresCount M ss = sum_list (map (\<lambda>s. length (scoredValues s M)) ss)"

definition spec_totalLowScores :: "field list \<Rightarrow> 'a school_scheme list \<Rightarrow> nat" where
  "spec_totalLowScores M ss =
     sum_list (map (\<lambda>s. length (filter (\<lambda>n. n \<le> 2) (scoredValues s M))) ss)"

definition spec_affected :: "field list \<Rightarrow> 'a school_scheme \<Rightarrow> bool" where
  "spec_affected M s = (filter (\<lambda>n. n \<le> 2) (scoredValues s M) \<noteq> [])"

definition spec_affectedSchoolsCount :: "field list \<Rightarrow> 'a school_scheme list \<Rightarrow> nat" where
  "spec_affectedSchoolsCount M ss = card (set (map school_id (filter (spec_affected M) ss)))"

definition spec_scopeScore :: "field list \<Rightarrow> 'a school_scheme list \<Rightarrow> rat" where
  "spec_scopeScore M ss = rat_of_nat (spec_affectedSchoolsCount M ss) / rat_of_nat (length ss)"

definition spec_severityScore :: "field list \<Rightarrow> 'a school_scheme list \<Rightarrow> rat" where
  "spec_severityScore M ss =
     rat_of_nat (spec_totalLowScores M ss) / rat_of_nat (max (spec_totalScoresCount M ss) 1)"

definition spec_urgencyFraction :: "rat \<Rightarrow> rat \<Rightarrow> rat" where
  "spec_urgencyFraction scopeScore severityScore = 6 / 10 * scopeScore + 4 / 10 * severityScore"

definition spec_severityBucket :: "rat \<Rightarrow> severity" where
  "spec_severityBucket x =
     (if 4 / 10 < x then Critical else if 25 / 100 < x then High
      else if 1 / 10 < x then Medium else Low)"

definition spec_detailSeverity :: "rat \<Rightarrow> severity" where
  "spec_detailSeverity percentage =
     (if 70 \<le> percentage then Critical else if 40 \<le> percentage then High else Medium)"

text \<open>The metrics of \<open>M\<close> that count as affected in a school's detail row.\<close>

definition spec_affectedMetrics :: "field list \<Rightarrow> 'a school_scheme \<Rightarrow> field list" where
  "spec_affectedMetrics M s =
     filter (\<lambda>k. case parseInt (slot s k) of None \<Rightarrow> False | Some n \<Rightarrow> n \<le> 2) M"

definition issueMetrics :: "constants \<Rightarrow> string \<Rightarrow> field list" where
  "issueMetrics C issueId = lookupList (BOOKLET_ISSUE_TO_METRICS_MAP C) issueId"

subsection \<open>Averages\<close>

text \<open>The mean of a list of scores, 0 for the empty list.\<close>

definition spec_mean_or_zero :: "int list \<Rightarrow> rat" where
  "spec_mean_or_zero xs = (if xs = [] then 0 else rat_of_int (sum_list xs) / rat_of_nat (length xs))"






subsection \<open>Challenges of a report card\<close>

definition spec_scoredMetrics :: "'a school_scheme \<Rightarrow> subCategory \<Rightarrow> metric list" where
  "spec_scoredMetrics s sc = filter (\<lambda>m. isScored (parseInt (slot s (metric_key m)))) (metrics sc)"

definition scoreOf :: "'a school_scheme \<Rightarrow> metric \<Rightarrow> int" where
  "scoreOf s m = orZeroInt (parseInt (slot s (metric_key m)))"

definition spec_subCatAverage :: "'a school_scheme \<Rightarrow> subCategory \<Rightarrow> rat" where
  "spec_subCatAverage s sc = spec_mean_or_zero (map (scoreOf s) (spec_scoredMetrics s sc))"

definition allSubCategories :: "constants \<Rightarrow> subCategory list" where
  "allSubCategories C = concat (map subCategories (HIERARCHICAL_CATEGORIES C))"

section \<open>Example data\<close>

text \<open>
  A small rubric, catalogue and some schools, used to run the definitions: ten metric
  keys, two sub-categories, five issues (one of them without metrics).
\<close>

definition exampleMetric :: "field \<Rightarrow> metric" where
  "exampleMetric k = \<lparr>metric_key = k, metric_name = ''Metric '' @ k\<rparr>"

definition exampleIssue :: "string \<Rightarrow> fullSystemicIssue" where
  "exampleIssue k =
     \<lparr>fsi_id = k, title = ''Issue '' @ k, principalGoal = ''Goal of '' @ k,
      fsi_category = Pedagogical\<rparr>"

definition exampleTeaching :: subCategory where
  "exampleTeaching =
     \<lparr>subCat_name = ''Teaching'',
      metrics = map exampleMetric [''m1'', ''m2'', ''m3'', ''m4'', ''m5'', ''m6'']\<rparr>"

definition exampleClimate :: subCategory where
  "exampleClimate =
     \<lparr>subCat_name = ''Climate'', metrics = map exampleMetric [''m7'', ''m8'']\<rparr>"

definition exampleConstants :: constants where
  "exampleConstants =
     \<lparr>ALL_SCORE_FIELDS =
        [''m1'', ''m2'', ''m3'', ''m4'', ''m5'', ''m6'', ''m7'', ''m8'', ''m9'', ''m10''],
      HIERARCHICAL_CATEGORIES =
        [\<lparr>cat_name = ''Pedagogy'',
          subCategories = [exampleTeaching, exampleClimate]\<rparr>],
      METRIC_TO_CHALLENGE_MAP = [''m1'' \<mapsto> ''Lessons are not planned''],
      FIELD_HEBREW_MAP = [''m2'' \<mapsto> ''Teaching - Feedback''],
      BOOKLET_ISSUE_TO_METRICS_MAP =
        [''issueA'' \<mapsto> [''m1'', ''m2''],
         ''issueB'' \<mapsto> [''m3''],
         ''issueC'' \<mapsto> [],
         ''issueFive'' \<mapsto> [''m1'', ''m2'', ''m3'', ''m4'', ''m5''],
         ''issueTen'' \<mapsto>
           [''m1'', ''m2'', ''m3'', ''m4'', ''m5'', ''m6'', ''m7'', ''m8'', ''m9'', ''m10'']],
      BOOKLET_TO_PLAN_ISSUES_MAP = [''area1'' \<mapsto> [''issueA'', ''issueB'', ''issueC'']],
      issuesAndGoalsData = map exampleIssue [''issueA'', ''issueB'', ''issueC'']\<rparr>"

definition exampleRow :: "int \<Rightarrow> (field \<times> string) list \<Rightarrow> school" where
  "exampleRow i slots =
     \<lparr>school_id = i, name = ''School'', principal = [], students = ''100'',
      supportLevel = [], school_notes = [], scores = map_of slots\<rparr>"

definition exampleSchool :: "int \<Rightarrow> nat \<Rightarrow> (field \<times> string) list \<Rightarrow> schoolForAnalysis" where
  "exampleSchool i t slots =
     \<lparr>school_id = i, name = ''School'', principal = [], students = ''100'',
      supportLevel = [], school_notes = [], scores = map_of slots,
      characterization = ''N/A'', specificChallenges = [], tier = t\<rparr>"

text \<open>Four scores of 1 and an empty slot; five scores of 2.\<close>

definition sparseRow :: school where
  "sparseRow = exampleRow 1
     [(''m1'', ''1''), (''m2'', ''1''), (''m3'', ''1''), (''m4'', ''1''), (''m5'', [])]"

definition lowRow :: school where
  "lowRow = exampleRow 2
     [(''m1'', ''2''), (''m2'', ''2''), (''m3'', ''2''), (''m4'', ''2''), (''m5'', ''2'')]"

text \<open>One low score among four: half of the schools affected, a quarter of the scores low.\<close>

definition schoolOneLow :: schoolForAnalysis where
  "schoolOneLow = exampleSchool 1 2 [(''m1'', ''1''), (''m2'', ''3''), (''m3'', ''4'')]"

definition schoolNoLow :: schoolForAnalysis where
  "schoolNoLow = exampleSchool 2 2 [(''m1'', ''3''), (''m2'', ''3''), (''m3'', ''4'')]"

definition schoolAllLow :: schoolForAnalysis where
  "schoolAllLow = exampleSchool 3 3 [(''m1'', ''1''), (''m2'', ''2''), (''m3'', ''4'')]"

text \<open>A slot holding the text 0, and slots holding 5 and 3.\<close>

definition schoolZero :: schoolForAnalysis where
  "schoolZero = exampleSchool 4 2 [(''m1'', ''0''), (''m2'', ''3'')]"



text \<open>A school without any score.\<close>

definition schoolUnscored :: schoolForAnalysis where
  "schoolUnscored = exampleSchool 9 2 []"

text \<open>Seven of ten metrics low; two of five metrics low.\<close>

definition schoolSevenOfTen :: schoolForAnalysis where
  "schoolSevenOfTen = exampleSchool 6 3
     [(''m1'', ''1''), (''m2'', ''1''), (''m3'', ''2''), (''m4'', ''2''), (''m5'', ''1''),
      (''m6'', ''2''), (''m7'', ''1''), (''m8'', ''3''), (''m9'', ''4''), (''m10'', ''3'')]"

definition schoolTwoOfFive :: schoolForAnalysis where
  "schoolTwoOfFive = exampleSchool 7 2
     [(''m1'', ''1''), (''m2'', ''2''), (''m3'', ''3''), (''m4'', ''4''), (''m5'', ''3'')]"

text \<open>
  Sub-category Teaching scored 1, 4, 4, 4, 4, 4 (average 3.5), sub-category Climate
  scored 1, 4 (average 2.5).
\<close>

definition schoolDampened :: schoolForAnalysis where
  "schoolDampened = exampleSchool 8 1
     [(''m1'', ''1''), (''m2'', ''4''), (''m3'', ''4''), (''m4'', ''4''), (''m5'', ''4''),
      (''m6'', ''4''), (''m7'', ''1''), (''m8'', ''4'')]"

section \<open>Tiering: verified properties\<close>

lemma allScores_spec_S:
  "filter (\<lambda>score. js_gt score (Fin 0)) (map (\<lambda>f. orZero (parseFloat (slot s f))) flds)
     = spec_S flds s"
proof (induction flds)
  case Nil
  show ?case by (simp add: spec_S_def)
next
  case (Cons f fs)
  from Cons show ?case
    by (cases "parseFloat (slot s f)") (auto simp: spec_S_def orZero_def js_gt_def)
qed

lemma spec_S_positive: "x \<in> set (spec_S flds s) \<Longrightarrow> x = PInf \<or> (\<exists>r. x = Fin r \<and> 0 < r)"
  by (cases x) (auto simp: spec_S_def js_gt_def)

lemma foldl_js_add_PInf:
  "\<forall>x \<in> set xs. x = PInf \<or> (\<exists>r. x = Fin r \<and> 0 < r) \<Longrightarrow> foldl js_add PInf xs = PInf"
  by (induction xs) auto

lemma foldl_js_add_positive:
  "\<forall>x \<in> set xs. x = PInf \<or> (\<exists>r. x = Fin r \<and> 0 < r) \<Longrightarrow>
   foldl js_add (Fin a) xs =
     (if PInf \<in> set xs then PInf else Fin (a + sum_list (map finite_part xs)))"
proof (induction xs arbitrary: a)
  case Nil
  show ?case by simp
next
  case (Cons x xs)
  then show ?case
    by (auto simp: foldl_js_add_PInf add.assoc)
qed

lemma average_spec_mean:
  assumes "\<forall>x \<in> set xs. x = PInf \<or> (\<exists>r. x = Fin r \<and> 0 < r)" and "xs \<noteq> []"
  shows "js_div_length (foldl js_add (Fin 0) xs) (length xs) = spec_mean xs"
  using assms by (simp add: foldl_js_add_positive spec_mean_def)

lemma overallAverage_spec_mean:
  assumes "5 \<le> length (spec_S flds s)"
  shows "js_div_length (foldl js_add (Fin 0) (spec_S flds s)) (length (spec_S flds s))
           = spec_mean (spec_S flds s)"
proof -
  have pos: "\<forall>x \<in> set (spec_S flds s). x = PInf \<or> (\<exists>r. x = Fin r \<and> 0 < r)"
    using spec_S_positive by blast
  from assms have "spec_S flds s \<noteq> []" by auto
  with pos show ?thesis by (rule average_spec_mean)
qed


text \<open>
  C6, as stated: a mean of the positive scores below 2.2 gives tier 3 whatever the
  number of positive scores.  A school with four scores of 1 has mean 1 and tier 2.
\<close>

theorem low_mean_sparse_school_is_tier2:
  "spec_S (ALL_SCORE_FIELDS exampleConstants) sparseRow = [Fin 1, Fin 1, Fin 1, Fin 1]
   \<and> js_lt (spec_mean (spec_S (ALL_SCORE_FIELDS exampleConstants) sparseRow)) (Fin (11 / 5))
   \<and> getTier exampleConstants sparseRow = 2"
  by code_simp

text \<open>
  C6, amended: for every school with at least 5 positive scores whose mean is below
  2.2 the tier is 3, whatever the number of critical scores.
\<close>

theorem low_mean_is_tier3:
  assumes "5 \<le> length (spec_S (ALL_SCORE_FIELDS C) s)"
    and "js_lt (spec_mean (spec_S (ALL_SCORE_FIELDS C) s)) (Fin (11 / 5))"
  shows "getTier C s = 3"
  using assms overallAverage_spec_mean [OF assms(1)]
  by (simp add: getTier_def allScores_spec_S Let_def)

theorem low_mean_is_tier3_witness:
  "5 \<le> length (spec_S (ALL_SCORE_FIELDS exampleConstants) lowRow)
   \<and> js_lt (spec_mean (spec_S (ALL_SCORE_FIELDS exampleConstants) lowRow)) (Fin (11 / 5))
   \<and> length (filter (\<lambda>x. js_le x (Fin (3 / 2)))
        (spec_S (ALL_SCORE_FIELDS exampleConstants) lowRow)) = 0
   \<and> getTier exampleConstants lowRow = 3"
proof -
  have a: "5 \<le> length (spec_S (ALL_SCORE_FIELDS exampleConstants) lowRow)"
    by code_simp
  have b: "js_lt (spec_mean (spec_S (ALL_SCORE_FIELDS exampleConstants) lowRow)) (Fin (11 / 5))"
    by code_simp
  have c: "length (filter (\<lambda>x. js_le x (Fin (3 / 2)))
        (spec_S (ALL_SCORE_FIELDS exampleConstants) lowRow)) = 0"
    by code_simp
  from a b c low_mean_is_tier3 [OF a b] show ?thesis by simp
qed

lemma getTier_range: "getTier C s \<in> {1, 2, 3}"
  by (simp add: getTier_def Let_def)

lemma length_three_filters:
  "\<forall>x \<in> set xs. t x \<in> {1, 2, 3::nat} \<Longrightarrow>
   length (filter (\<lambda>x. t x = 1) xs) + length (filter (\<lambda>x. t x = 2) xs)
     + length (filter (\<lambda>x. t x = 3) xs) = length xs"
  by (induction xs) auto

text \<open>
  C9.  Every school of the analysis has a tier in {1, 2, 3} and lies in the bucket of
  its tier and in no other; the analysed schools are the input rows in their order;
  the three tier buckets together have as many members as there are input schools,
  which is \<open>totalSchools\<close>; \<open>lowPerformanceSchools\<close> is the size of the tier 3 bucket and
  \<open>excellentSchools\<close> that of the tier 1 bucket.
\<close>

theorem performAnalysis_tiers_partition:
  "(\<forall>s \<in> set (data_schools (performAnalysis C d)).
       tier s \<in> {1, 2, 3}
     \<and> (s \<in> set (tier1 (data_performanceClassification (performAnalysis C d)))
          \<longleftrightarrow> tier s = 1)
     \<and> (s \<in> set (tier2 (data_performanceClassification (performAnalysis C d)))
          \<longleftrightarrow> tier s = 2)
     \<and> (s \<in> set (tier3 (data_performanceClassification (performAnalysis C d)))
          \<longleftrightarrow> tier s = 3))
   \<and> map school_id (data_schools (performAnalysis C d)) = map school_id d
   \<and> map tier (data_schools (performAnalysis C d)) = map (getTier C) d
   \<and> length (data_schools (performAnalysis C d)) = length d
   \<and> length (tier1 (data_performanceClassification (performAnalysis C d)))
       + length (tier2 (data_performanceClassification (performAnalysis C d)))
       + length (tier3 (data_performanceClassification (performAnalysis C d)))
       = totalSchools (data_summary (performAnalysis C d))
   \<and> totalSchools (data_summary (performAnalysis C d)) = length d
   \<and> lowPerformanceSchools (data_summary (performAnalysis C d))
       = length (tier3 (data_performanceClassification (performAnalysis C d)))
   \<and> excellentSchools (data_summary (performAnalysis C d))
       = length (tier1 (data_performanceClassification (performAnalysis C d)))"
proof -
  let ?xs = "map (toSchoolForAnalysis C) d"
  have r: "\<forall>s \<in> set ?xs. tier s \<in> {1, 2, 3}"
    using getTier_range by (auto simp: toSchoolForAnalysis_def)
  have ids: "map school_id ?xs = map school_id d" and tiers: "map tier ?xs = map (getTier C) d"
    by (simp_all add: toSchoolForAnalysis_def comp_def)
  from length_three_filters [OF r] r ids tiers show ?thesis
    by (simp add: performAnalysis_def Let_def)
qed

theorem performAnalysis_tiers_partition_witness:
  "map tier (data_schools (performAnalysis exampleConstants [sparseRow, lowRow])) = [2, 3]
   \<and> tier (hd (data_schools (performAnalysis exampleConstants [sparseRow, lowRow])))
        \<in> {1, 2, 3}
   \<and> length (tier1 (data_performanceClassification
                      (performAnalysis exampleConstants [sparseRow, lowRow])))
       + length (tier2 (data_performanceClassification
                      (performAnalysis exampleConstants [sparseRow, lowRow])))
       + length (tier3 (data_performanceClassification
                      (performAnalysis exampleConstants [sparseRow, lowRow]))) = 2"
proof -
  note part = performAnalysis_tiers_partition [of exampleConstants "[sparseRow, lowRow]"]
  have tiers: "map tier (data_schools (performAnalysis exampleConstants [sparseRow, lowRow]))
      = [2, 3]"
    by code_simp
  then have "hd (data_schools (performAnalysis exampleConstants [sparseRow, lowRow]))
      \<in> set (data_schools (performAnalysis exampleConstants [sparseRow, lowRow]))"
    by (cases "data_schools (performAnalysis exampleConstants [sparseRow, lowRow])") auto
  with part have "tier (hd (data_schools (performAnalysis exampleConstants [sparseRow, lowRow])))
      \<in> {1, 2, 3}"
    by blast
  moreover from part have
    "length (tier1 (data_performanceClassification
                      (performAnalysis exampleConstants [sparseRow, lowRow])))
       + length (tier2 (data_performanceClassification
                      (performAnalysis exampleConstants [sparseRow, lowRow])))
       + length (tier3 (data_performanceClassification
                      (performAnalysis exampleConstants [sparseRow, lowRow]))) = 2"
    by simp
  ultimately show ?thesis using tiers by simp
qed

section \<open>Issue identification: verified properties\<close>

lemma scoredValues_Nil: "scoredValues s [] = []"
  by (simp add: scoredValues_def positiveNumbers_def)

lemma scoredValues_Cons:
  "scoredValues s (k # ks) =
     (case parseInt (slot s k) of
        None \<Rightarrow> scoredValues s ks
      | Some n \<Rightarrow> if 0 < n then n # scoredValues s ks else scoredValues s ks)"
  by (simp add: scoredValues_def positiveNumbers_def isScored_def split: option.splits)

lemma scoredValues_append_one:
  "scoredValues s (k # ks) = scoredValues s [k] @ scoredValues s ks"
  by (simp add: scoredValues_def positiveNumbers_def List.map_filter_def)

lemma metricStep_spec:
  "metricStep s k (lo, cnt, has) =
     (lo + length (filter (\<lambda>n. n \<le> 2) (scoredValues s [k])),
      cnt + length (scoredValues s [k]),
      has \<or> filter (\<lambda>n. n \<le> 2) (scoredValues s [k]) \<noteq> [])"
  by (cases "parseInt (slot s k)") (simp_all add: metricStep_def scoredValues_Cons scoredValues_Nil)

lemma fold_metricStep:
  "fold (metricStep s) ks (lo, cnt, has) =
     (lo + length (filter (\<lambda>n. n \<le> 2) (scoredValues s ks)),
      cnt + length (scoredValues s ks),
      has \<or> filter (\<lambda>n. n \<le> 2) (scoredValues s ks) \<noteq> [])"
proof (induction ks arbitrary: lo cnt has)
  case Nil
  show ?case by (simp add: scoredValues_Nil)
next
  case (Cons k ks)
  have "fold (metricStep s) (k # ks) (lo, cnt, has)
          = fold (metricStep s) ks (metricStep s k (lo, cnt, has))"
    by simp
  also have "\<dots> = (lo + length (filter (\<lambda>n. n \<le> 2) (scoredValues s (k # ks))),
      cnt + length (scoredValues s (k # ks)),
      has \<or> filter (\<lambda>n. n \<le> 2) (scoredValues s (k # ks)) \<noteq> [])"
    unfolding metricStep_spec Cons.IH scoredValues_append_one [of s k ks] by auto
  finally show ?case .
qed

lemma schoolStep_spec:
  "schoolStep M s (lo, cnt, ids) =
     (lo + length (filter (\<lambda>n. n \<le> 2) (scoredValues s M)),
      cnt + length (scoredValues s M),
      if spec_affected M s then insert (school_id s) ids else ids)"
  unfolding schoolStep_def fold_metricStep by (simp add: spec_affected_def)

lemma fold_schoolStep:
  "fold (schoolStep M) ss (lo, cnt, ids) =
     (lo + spec_totalLowScores M ss,
      cnt + spec_totalScoresCount M ss,
      ids \<union> set (map school_id (filter (spec_affected M) ss)))"
proof (induction ss arbitrary: lo cnt ids)
  case Nil
  show ?case by (simp add: spec_totalLowScores_def spec_totalScoresCount_def)
next
  case (Cons s ss)
  have "fold (schoolStep M) (s # ss) (lo, cnt, ids)
          = fold (schoolStep M) ss (schoolStep M s (lo, cnt, ids))"
    by simp
  then show ?case
    unfolding schoolStep_spec Cons.IH
    by (auto simp: spec_totalLowScores_def spec_totalScoresCount_def)
qed

lemma urgencyFraction_eq:
  "a * (6 / 10) + b * (4 / 10) = spec_urgencyFraction a (b::rat)"
  by (simp add: spec_urgencyFraction_def)

lemma max_one: "(if n = 0 then 1 else n) = max n (1::nat)"
  by auto

lemma identifyIssue_spec:
  "identifyIssue C ss d =
     (let M = issueMetrics C (fsi_id d);
          f = spec_urgencyFraction (spec_scopeScore M ss) (spec_severityScore M ss)
      in if spec_affectedSchoolsCount M ss = 0 then None
         else Some \<lparr>issue_id = fsi_id d,
                    issue_name = title d,
                    description = principalGoal d,
                    affectedSchools = spec_affectedSchoolsCount M ss,
                    issue_totalSchools = length ss,
                    issue_severity = spec_severityBucket f,
                    issue_category = fsi_category d,
                    urgency = js_round (f * 100),
                    schoolDetails = buildSchoolDetails C ss (fsi_id d),
                    overallAverage = calculateAverageForCategory C (fsi_id d) ss,
                    tier1Average =
                      calculateAverageForCategory C (fsi_id d) (filter (\<lambda>s. tier s = 1) ss),
                    tier2Average =
                      calculateAverageForCategory C (fsi_id d) (filter (\<lambda>s. tier s = 2) ss),
                    tier3Average =
                      calculateAverageForCategory C (fsi_id d) (filter (\<lambda>s. tier s = 3) ss)\<rparr>)"
  unfolding identifyIssue_def fold_schoolStep Let_def issueMetrics_def [symmetric]
  by (simp only: prod.case add_0 Un_empty_left spec_affectedSchoolsCount_def [symmetric]
      urgencyFraction_eq max_one spec_scopeScore_def [symmetric]
      spec_severityScore_def [symmetric] spec_severityBucket_def [symmetric])


lemma identifyIssue_Some:
  assumes "identifyIssue C ss d = Some i"
  shows "issue_id i = fsi_id d"
    and "affectedSchools i = spec_affectedSchoolsCount (issueMetrics C (fsi_id d)) ss"
    and "0 < spec_affectedSchoolsCount (issueMetrics C (fsi_id d)) ss"
    and "urgency i = js_round (spec_urgencyFraction
            (spec_scopeScore (issueMetrics C (fsi_id d)) ss)
            (spec_severityScore (issueMetrics C (fsi_id d)) ss) * 100)"
    and "issue_severity i = spec_severityBucket (spec_urgencyFraction
            (spec_scopeScore (issueMetrics C (fsi_id d)) ss)
            (spec_severityScore (issueMetrics C (fsi_id d)) ss))"
    and "schoolDetails i = buildSchoolDetails C ss (fsi_id d)"
  using assms
  by (auto simp: identifyIssue_spec Let_def split: if_splits)

lemma set_map_filter_conv:
  "set (List.map_filter f xs) = {y. \<exists>x \<in> set xs. f x = Some y}"
  by (induction xs) (auto split: option.splits)

lemma analyzeSchoolData_set:
  assumes "analyzeSchoolData C ss areas = Some result"
  shows "set result = {i. \<exists>d \<in> set (relevantIssuesData C areas). identifyIssue C ss d = Some i}"
  using assms
  by (auto simp: analyzeSchoolData_def set_map_filter_conv split: if_splits)

lemma js_round_is_round: "js_round x = round x"
  by (simp add: js_round_def round_def)



text \<open>
  C7.  An issue whose affected-school count is zero, in particular one whose metric
  list is empty, is not among the issues the analysis returns.
\<close>

theorem unaffected_issue_not_returned:
  assumes "analyzeSchoolData C ss areas = Some result"
    and "spec_affectedSchoolsCount (issueMetrics C k) ss = 0 \<or> issueMetrics C k = []"
  shows "k \<notin> set (map issue_id result)"
proof
  assume "k \<in> set (map issue_id result)"
  then obtain i where "i \<in> set result" and k: "issue_id i = k" by auto
  with assms(1) obtain d where "identifyIssue C ss d = Some i"
    by (auto simp: analyzeSchoolData_set)
  from identifyIssue_Some(1,3) [OF this] k
  have pos: "0 < spec_affectedSchoolsCount (issueMetrics C k) ss" by simp
  have "issueMetrics C k = [] \<Longrightarrow> spec_affectedSchoolsCount (issueMetrics C k) ss = 0"
    by (simp add: spec_affectedSchoolsCount_def spec_affected_def scoredValues_Nil)
  with assms(2) pos show False by auto
qed

theorem unaffected_issue_not_returned_witness:
  "map issue_id (the (analyzeSchoolData exampleConstants [schoolOneLow, schoolNoLow] [''area1'']))
      = [''issueA'']
   \<and> spec_affectedSchoolsCount (issueMetrics exampleConstants ''issueB'')
        [schoolOneLow, schoolNoLow] = 0
   \<and> ''issueB'' \<notin> set (map issue_id
        (the (analyzeSchoolData exampleConstants [schoolOneLow, schoolNoLow] [''area1''])))
   \<and> issueMetrics exampleConstants ''issueC'' = []
   \<and> ''issueC'' \<notin> set (map issue_id
        (the (analyzeSchoolData exampleConstants [schoolOneLow, schoolNoLow] [''area1''])))"
proof -
  let ?ss = "[schoolOneLow, schoolNoLow]"
  have run: "analyzeSchoolData exampleConstants ?ss [''area1'']
      = Some (the (analyzeSchoolData exampleConstants ?ss [''area1'']))"
    by (simp add: analyzeSchoolData_def)
  have ids: "map issue_id (the (analyzeSchoolData exampleConstants ?ss [''area1'']))
      = [''issueA'']"
    by code_simp
  have b: "spec_affectedSchoolsCount (issueMetrics exampleConstants ''issueB'') ?ss = 0"
    by code_simp
  have c: "issueMetrics exampleConstants ''issueC'' = []"
    by code_simp
  from b have b': "spec_affectedSchoolsCount (issueMetrics exampleConstants ''issueB'') ?ss = 0
      \<or> issueMetrics exampleConstants ''issueB'' = []" ..
  from c have c': "spec_affectedSchoolsCount (issueMetrics exampleConstants ''issueC'') ?ss = 0
      \<or> issueMetrics exampleConstants ''issueC'' = []" ..
  from unaffected_issue_not_returned [OF run b'] unaffected_issue_not_returned [OF run c']
    ids b c
  show ?thesis by blast
qed

text \<open>
  C8.  The urgency of an issue does not decrease when its scope score or its severity
  score increases and the other one does not decrease (in particular stays fixed).
\<close>

theorem urgency_monotone:
  assumes "identifyIssue C ss d = Some i"
    and "identifyIssue C' ss' d' = Some i'"
    and "spec_scopeScore (issueMetrics C (fsi_id d)) ss
           \<le> spec_scopeScore (issueMetrics C' (fsi_id d')) ss'"
    and "spec_severityScore (issueMetrics C (fsi_id d)) ss
           \<le> spec_severityScore (issueMetrics C' (fsi_id d')) ss'"
  shows "urgency i \<le> urgency i'"
proof -
  from assms(3,4) have
    "spec_urgencyFraction (spec_scopeScore (issueMetrics C (fsi_id d)) ss)
        (spec_severityScore (issueMetrics C (fsi_id d)) ss) * 100
     \<le> spec_urgencyFraction (spec_scopeScore (issueMetrics C' (fsi_id d')) ss')
        (spec_severityScore (issueMetrics C' (fsi_id d')) ss') * 100"
    by (simp add: spec_urgencyFraction_def)
  then show ?thesis
    unfolding identifyIssue_Some(4) [OF assms(1)] identifyIssue_Some(4) [OF assms(2)]
      js_round_is_round
    by (rule round_mono)
qed

theorem urgency_monotone_witness:
  "spec_severityScore (issueMetrics exampleConstants ''issueA'')
       [schoolOneLow, schoolNoLow, schoolUnscored]
     = spec_severityScore (issueMetrics exampleConstants ''issueA'') [schoolOneLow, schoolNoLow]
   \<and> spec_scopeScore (issueMetrics exampleConstants ''issueA'')
       [schoolOneLow, schoolNoLow, schoolUnscored] = 1 / 3
   \<and> spec_scopeScore (issueMetrics exampleConstants ''issueA'') [schoolOneLow, schoolNoLow]
       = 1 / 2
   \<and> map_option urgency (identifyIssue exampleConstants
        [schoolOneLow, schoolNoLow, schoolUnscored] (exampleIssue ''issueA'')) = Some 30
   \<and> map_option urgency (identifyIssue exampleConstants
        [schoolOneLow, schoolNoLow] (exampleIssue ''issueA'')) = Some 40
   \<and> urgency (the (identifyIssue exampleConstants
        [schoolOneLow, schoolNoLow, schoolUnscored] (exampleIssue ''issueA'')))
      \<le> urgency (the (identifyIssue exampleConstants
        [schoolOneLow, schoolNoLow] (exampleIssue ''issueA'')))"
proof -
  let ?d = "exampleIssue ''issueA''"
  let ?ss = "[schoolOneLow, schoolNoLow, schoolUnscored]"
  let ?ss' = "[schoolOneLow, schoolNoLow]"
  have key: "fsi_id ?d = ''issueA''"
    by (simp add: exampleIssue_def)
  have u: "map_option urgency (identifyIssue exampleConstants ?ss ?d) = Some 30"
    by code_simp
  have u': "map_option urgency (identifyIssue exampleConstants ?ss' ?d) = Some 40"
    by code_simp
  from u have i: "identifyIssue exampleConstants ?ss ?d
      = Some (the (identifyIssue exampleConstants ?ss ?d))"
    by (cases "identifyIssue exampleConstants ?ss ?d") auto
  from u' have i': "identifyIssue exampleConstants ?ss' ?d
      = Some (the (identifyIssue exampleConstants ?ss' ?d))"
    by (cases "identifyIssue exampleConstants ?ss' ?d") auto
  have sev: "spec_severityScore (issueMetrics exampleConstants ''issueA'') ?ss
      = spec_severityScore (issueMetrics exampleConstants ''issueA'') ?ss'"
    by code_simp
  have sc: "spec_scopeScore (issueMetrics exampleConstants ''issueA'') ?ss = 1 / 3"
    by code_simp
  have sc': "spec_scopeScore (issueMetrics exampleConstants ''issueA'') ?ss' = 1 / 2"
    by code_simp
  have le1: "spec_scopeScore (issueMetrics exampleConstants (fsi_id ?d)) ?ss
      \<le> spec_scopeScore (issueMetrics exampleConstants (fsi_id ?d)) ?ss'"
    unfolding key sc sc' by simp
  have le2: "spec_severityScore (issueMetrics exampleConstants (fsi_id ?d)) ?ss
      \<le> spec_severityScore (issueMetrics exampleConstants (fsi_id ?d)) ?ss'"
    unfolding key sev by simp
  from urgency_monotone [OF i i' le1 le2] u u' sev sc sc' show ?thesis
    by blast
qed

section \<open>School details: verified properties\<close>

lemma schoolDetail_spec:
  "schoolDetail C M s =
     (if spec_affectedMetrics M s = [] then None
      else Some \<lparr>schoolId = school_id s, schoolName = name s, performanceTier = tier s,
                 detail_severity = spec_detailSeverity
                   (rat_of_nat (length (spec_affectedMetrics M s)) / rat_of_nat (length M) * 100),
                 affectedMetrics = map (affectedMetricText C) (spec_affectedMetrics M s)\<rparr>)"
  by (simp add: schoolDetail_def spec_affectedMetrics_def spec_detailSeverity_def Let_def)

lemma affectedMetrics_subset: "set (spec_affectedMetrics M s) \<subseteq> set M"
  by (auto simp: spec_affectedMetrics_def)

lemma buildSchoolDetails_map_filter:
  "buildSchoolDetails C ss k =
     List.map_filter (schoolDetail C (issueMetrics C k)) ss"
proof (cases "issueMetrics C k = []")
  case True
  then have "\<And>s. schoolDetail C (issueMetrics C k) s = None"
    by (simp add: schoolDetail_spec spec_affectedMetrics_def)
  then have "List.map_filter (schoolDetail C (issueMetrics C k)) ss = []"
    by (induction ss) simp_all
  with True show ?thesis
    by (simp add: buildSchoolDetails_def issueMetrics_def)
next
  case False
  then show ?thesis
    by (simp add: buildSchoolDetails_def issueMetrics_def)
qed

text \<open>
  C4.  A school with at least one affected metric of an issue has a detail row whose
  severity follows from percentage = affectedMetricCount / |M| * 100 with inclusive
  bounds: critical from 70, high from 40, else medium.  A percentage of 100 and one of
  exactly 70 are critical, one of exactly 40 is high.
\<close>

theorem detail_severity_thresholds:
  assumes "s \<in> set ss"
    and "spec_affectedMetrics (issueMetrics C k) s \<noteq> []"
  shows "\<exists>d \<in> set (buildSchoolDetails C ss k).
           schoolId d = school_id s
         \<and> length (affectedMetrics d) = length (spec_affectedMetrics (issueMetrics C k) s)
         \<and> detail_severity d = spec_detailSeverity
             (rat_of_nat (length (affectedMetrics d))
                / rat_of_nat (length (issueMetrics C k)) * 100)
         \<and> (rat_of_nat (length (affectedMetrics d))
                / rat_of_nat (length (issueMetrics C k)) * 100 = 100
             \<longrightarrow> detail_severity d = Critical)
         \<and> (rat_of_nat (length (affectedMetrics d))
                / rat_of_nat (length (issueMetrics C k)) * 100 = 70
             \<longrightarrow> detail_severity d = Critical)
         \<and> (rat_of_nat (length (affectedMetrics d))
                / rat_of_nat (length (issueMetrics C k)) * 100 = 40
             \<longrightarrow> detail_severity d = High)"
proof -
  let ?M = "issueMetrics C k"
  let ?d = "\<lparr>schoolId = school_id s, schoolName = name s, performanceTier = tier s,
             detail_severity = spec_detailSeverity
               (rat_of_nat (length (spec_affectedMetrics ?M s)) / rat_of_nat (length ?M) * 100),
             affectedMetrics = map (affectedMetricText C) (spec_affectedMetrics ?M s)\<rparr>"
  from assms(2) have "schoolDetail C ?M s = Some ?d"
    by (simp add: schoolDetail_spec)
  with assms(1) have mem: "?d \<in> set (buildSchoolDetails C ss k)"
    unfolding buildSchoolDetails_map_filter set_map_filter_conv by blast
  have b100: "spec_detailSeverity 100 = Critical"
    and b70: "spec_detailSeverity 70 = Critical"
    and b40: "spec_detailSeverity 40 = High"
    by (simp_all add: spec_detailSeverity_def)
  show ?thesis
  proof (rule bexI [OF _ mem], intro conjI impI)
    assume "rat_of_nat (length (affectedMetrics ?d)) / rat_of_nat (length ?M) * 100 = 100"
    then show "detail_severity ?d = Critical"
      using b100 by simp
  next
    assume "rat_of_nat (length (affectedMetrics ?d)) / rat_of_nat (length ?M) * 100 = 70"
    then show "detail_severity ?d = Critical"
      using b70 by simp
  next
    assume "rat_of_nat (length (affectedMetrics ?d)) / rat_of_nat (length ?M) * 100 = 40"
    then show "detail_severity ?d = High"
      using b40 by simp
  qed simp_all
qed

theorem detail_severity_thresholds_witness:
  "map (\<lambda>d. (schoolId d, length (affectedMetrics d), detail_severity d))
       (buildSchoolDetails exampleConstants [schoolAllLow, schoolSevenOfTen] ''issueTen'')
     = [(3, 2, Medium), (6, 7, Critical)]
   \<and> map (\<lambda>d. (schoolId d, length (affectedMetrics d), detail_severity d))
       (buildSchoolDetails exampleConstants [schoolTwoOfFive] ''issueFive'')
     = [(7, 2, High)]
   \<and> map (\<lambda>d. (schoolId d, length (affectedMetrics d), detail_severity d))
       (buildSchoolDetails exampleConstants [schoolAllLow] ''issueA'')
     = [(3, 2, Critical)]
   \<and> (\<exists>d \<in> set (buildSchoolDetails exampleConstants [schoolAllLow, schoolSevenOfTen] ''issueTen'').
         schoolId d = 6 \<and> length (affectedMetrics d) = 7 \<and> detail_severity d = Critical)"
proof -
  let ?ss = "[schoolAllLow, schoolSevenOfTen]"
  have rows: "map (\<lambda>d. (schoolId d, length (affectedMetrics d), detail_severity d))
       (buildSchoolDetails exampleConstants ?ss ''issueTen'') = [(3, 2, Medium), (6, 7, Critical)]"
    by code_simp
  have rows5: "map (\<lambda>d. (schoolId d, length (affectedMetrics d), detail_severity d))
       (buildSchoolDetails exampleConstants [schoolTwoOfFive] ''issueFive'') = [(7, 2, High)]"
    by code_simp
  have rows2: "map (\<lambda>d. (schoolId d, length (affectedMetrics d), detail_severity d))
       (buildSchoolDetails exampleConstants [schoolAllLow] ''issueA'') = [(3, 2, Critical)]"
    by code_simp
  have mem: "schoolSevenOfTen \<in> set ?ss"
    by simp
  have n: "length (spec_affectedMetrics (issueMetrics exampleConstants ''issueTen'')
                     schoolSevenOfTen) = 7"
    by code_simp
  then have ne: "spec_affectedMetrics (issueMetrics exampleConstants ''issueTen'')
                   schoolSevenOfTen \<noteq> []"
    by auto
  have m: "length (issueMetrics exampleConstants ''issueTen'') = 10"
    by code_simp
  have sid: "school_id schoolSevenOfTen = 6"
    by (simp add: schoolSevenOfTen_def exampleSchool_def)
  from detail_severity_thresholds [OF mem ne] obtain d
    where "d \<in> set (buildSchoolDetails exampleConstants ?ss ''issueTen'')"
      and "schoolId d = 6" and "length (affectedMetrics d) = 7"
      and "rat_of_nat (length (affectedMetrics d))
             / rat_of_nat (length (issueMetrics exampleConstants ''issueTen'')) * 100 = 70
           \<longrightarrow> detail_severity d = Critical"
    unfolding n sid by blast
  then have "\<exists>d \<in> set (buildSchoolDetails exampleConstants ?ss ''issueTen'').
         schoolId d = 6 \<and> length (affectedMetrics d) = 7 \<and> detail_severity d = Critical"
    unfolding m by auto
  with rows rows5 rows2 show ?thesis by blast
qed

text \<open>
  C10.  A slot that parses to a number that is not positive is an affected metric of
  the school's detail row, yet the counting loop of the issue passes over it: it adds
  nothing to \<open>totalScoresCount\<close> or \<open>totalLowScores\<close> and does not mark the school as
  affected.  So an issue can list more schools in \<open>schoolDetails\<close> than
  \<open>affectedSchools\<close> counts: with one school scored 1 and one holding the text 0 the
  issue has two detail rows and one affected school.
\<close>

theorem nonpositive_slot_in_details_only:
  "(parseInt (slot s k) = Some n \<longrightarrow> n \<le> 0 \<longrightarrow> k \<in> set M \<longrightarrow>
        k \<in> set (spec_affectedMetrics M s)
      \<and> (\<exists>d. schoolDetail C M s = Some d
              \<and> affectedMetrics d = map (affectedMetricText C) (spec_affectedMetrics M s))
      \<and> metricStep s k acc = acc
      \<and> scoredValues s [k] = [])
   \<and> (\<exists>i. analyzeSchoolData exampleConstants [schoolOneLow, schoolZero] [''area1''] = Some [i]
          \<and> affectedSchools i = 1 \<and> length (schoolDetails i) = 2)"
proof (intro conjI impI)
  assume p: "parseInt (slot s k) = Some n" and n: "n \<le> 0" and k: "k \<in> set M"
  from p n k show mem: "k \<in> set (spec_affectedMetrics M s)"
    by (simp add: spec_affectedMetrics_def)
  then have "spec_affectedMetrics M s \<noteq> []" by auto
  then show "\<exists>d. schoolDetail C M s = Some d
      \<and> affectedMetrics d = map (affectedMetricText C) (spec_affectedMetrics M s)"
    by (simp add: schoolDetail_spec)
  from p n show "metricStep s k acc = acc"
    by (cases acc) (simp add: metricStep_def)
  from p n show "scoredValues s [k] = []"
    by (simp add: scoredValues_Cons scoredValues_Nil)
next
  have "map_option (map (\<lambda>i. (affectedSchools i, length (schoolDetails i))))
          (analyzeSchoolData exampleConstants [schoolOneLow, schoolZero] [''area1''])
        = Some [(1, 2)]"
    by code_simp
  then show "\<exists>i. analyzeSchoolData exampleConstants [schoolOneLow, schoolZero] [''area1'']
                   = Some [i]
          \<and> affectedSchools i = 1 \<and> length (schoolDetails i) = 2"
    by (cases "analyzeSchoolData exampleConstants [schoolOneLow, schoolZero] [''area1'']")
       auto
qed

theorem nonpositive_slot_in_details_only_witness:
  "parseInt (slot schoolZero ''m1'') = Some 0
   \<and> ''m1'' \<in> set (spec_affectedMetrics [''m1'', ''m2''] schoolZero)
   \<and> metricStep schoolZero ''m1'' (0, 0, False) = (0, 0, False)
   \<and> scoredValues schoolZero [''m1''] = []"
proof -
  have p: "parseInt (slot schoolZero ''m1'') = Some 0"
    by code_simp
  have "(0::int) \<le> 0" and "''m1'' \<in> set [''m1'', ''m2'']"
    by simp_all
  with p nonpositive_slot_in_details_only
    [of schoolZero "''m1''" 0 "[''m1'', ''m2'']" exampleConstants "(0, 0, False)"]
  show ?thesis by blast
qed

section \<open>Averages: verified properties\<close>






















section \<open>Report card challenges: verified properties\<close>

lemma metricsWithScores_spec:
  "metricsWithScores s ms =
     map (\<lambda>m. (m, scoreOf s m))
         (filter (\<lambda>m. isScored (parseInt (slot s (metric_key m)))) ms)"
proof (induction ms)
  case Nil
  show ?case by (simp add: metricsWithScores_def)
next
  case (Cons m ms)
  then show ?case
    by (cases "parseInt (slot s (metric_key m))")
       (simp_all add: metricsWithScores_def isScored_def scoreOf_def orZeroInt_def)
qed

lemma foldl_snd_sum_list:
  "foldl (\<lambda>acc curr. acc + snd curr) a xs = a + sum_list (map snd (xs :: ('a \<times> int) list))"
  by (induction xs arbitrary: a) simp_all

lemma fold_push_challenges:
  "fold (\<lambda>curr ch. if snd curr \<le> (3::int) then ch @ [e (fst curr)] else ch) xs ch0
     = ch0 @ map (\<lambda>curr. e (fst curr)) (filter (\<lambda>curr. snd curr \<le> 3) xs)"
  by (induction xs arbitrary: ch0) simp_all

lemma subCatChallenges_spec:
  "subCatChallenges C s sc ch =
     ch @ (if 7 / 2 \<le> spec_subCatAverage s sc then []
           else map (challengeEntry C sc)
                  (filter (\<lambda>m. scoreOf s m \<le> 3) (spec_scoredMetrics s sc)))"
proof (cases "spec_scoredMetrics s sc = []")
  case True
  then show ?thesis
    by (simp add: subCatChallenges_def metricsWithScores_spec spec_scoredMetrics_def
        spec_subCatAverage_def spec_mean_or_zero_def)
next
  case False
  have avg: "rat_of_int (foldl (\<lambda>acc curr. acc + snd curr) 0 (metricsWithScores s (metrics sc)))
               / rat_of_nat (length (metricsWithScores s (metrics sc)))
             = spec_subCatAverage s sc"
    using False
    by (simp add: foldl_snd_sum_list metricsWithScores_spec spec_scoredMetrics_def
        spec_subCatAverage_def spec_mean_or_zero_def comp_def)
  have emitted: "map (\<lambda>curr. challengeEntry C sc (fst curr))
                   (filter (\<lambda>curr. snd curr \<le> 3) (metricsWithScores s (metrics sc)))
                 = map (challengeEntry C sc)
                     (filter (\<lambda>m. scoreOf s m \<le> 3) (spec_scoredMetrics s sc))"
    by (simp add: metricsWithScores_spec spec_scoredMetrics_def filter_map comp_def)
  from False have len: "length (metricsWithScores s (metrics sc)) \<noteq> 0"
    by (simp add: metricsWithScores_spec spec_scoredMetrics_def)
  show ?thesis
    unfolding subCatChallenges_def Let_def avg fold_push_challenges emitted
    using len by (simp add: not_le)
qed

lemma fold_subCatChallenges:
  "fold (subCatChallenges C s) scs ch
     = ch @ concat (map (\<lambda>sc. subCatChallenges C s sc []) scs)"
proof (induction scs arbitrary: ch)
  case Nil
  show ?case by simp
next
  case (Cons sc scs)
  have "fold (subCatChallenges C s) (sc # scs) ch
          = fold (subCatChallenges C s) scs (subCatChallenges C s sc ch)"
    by simp
  also have "\<dots> = subCatChallenges C s sc ch
                      @ concat (map (\<lambda>sc. subCatChallenges C s sc []) scs)"
    by (rule Cons.IH)
  also have "subCatChallenges C s sc ch = ch @ subCatChallenges C s sc []"
    by (simp add: subCatChallenges_spec)
  finally show ?case by simp
qed

lemma fold_categories_challenges:
  "fold (\<lambda>cat. fold (subCatChallenges C s) (subCategories cat)) cats ch
     = ch @ concat (map (\<lambda>sc. subCatChallenges C s sc []) (concat (map subCategories cats)))"
proof (induction cats arbitrary: ch)
  case Nil
  show ?case by simp
next
  case (Cons cat cats)
  have "fold (\<lambda>cat. fold (subCatChallenges C s) (subCategories cat)) (cat # cats) ch
          = fold (\<lambda>cat. fold (subCatChallenges C s) (subCategories cat)) cats
              (fold (subCatChallenges C s) (subCategories cat) ch)"
    by simp
  then show ?case
    unfolding Cons.IH fold_subCatChallenges by simp
qed

text \<open>
  C5.  The challenges of a report card are the entries of the sub-categories in
  rubric order.  A sub-category whose average over the school's set positive scores is
  at least 3.5 adds no entry, whatever its single scores; one whose average is below
  3.5 adds exactly one entry for every scored metric with a score of at most 3.
\<close>

theorem challenges_dampened_by_average:
  "challengesOf C s = concat (map (\<lambda>sc. subCatChallenges C s sc []) (allSubCategories C))
   \<and> (7 / 2 \<le> spec_subCatAverage s sc \<longrightarrow> subCatChallenges C s sc [] = [])
   \<and> (spec_subCatAverage s sc < 7 / 2 \<longrightarrow>
        subCatChallenges C s sc []
          = map (challengeEntry C sc)
              (filter (\<lambda>m. scoreOf s m \<le> 3) (spec_scoredMetrics s sc)))
   \<and> map_option rc_challenges (createReportCardData C (Some ad) sid)
       = map_option (challengesOf C) (find (\<lambda>s. school_id s = sid) (data_schools ad))"
proof (intro conjI impI)
  show "challengesOf C s = concat (map (\<lambda>sc. subCatChallenges C s sc []) (allSubCategories C))"
    by (simp add: challengesOf_def fold_categories_challenges allSubCategories_def)
  show "map_option rc_challenges (createReportCardData C (Some ad) sid)
       = map_option (challengesOf C) (find (\<lambda>s. school_id s = sid) (data_schools ad))"
    by (cases "find (\<lambda>s. school_id s = sid) (data_schools ad)")
       (simp_all add: createReportCardData_def Let_def)
next
  assume "7 / 2 \<le> spec_subCatAverage s sc"
  then show "subCatChallenges C s sc [] = []"
    by (simp add: subCatChallenges_spec)
next
  assume "spec_subCatAverage s sc < 7 / 2"
  then show "subCatChallenges C s sc []
          = map (challengeEntry C sc)
              (filter (\<lambda>m. scoreOf s m \<le> 3) (spec_scoredMetrics s sc))"
    by (simp add: subCatChallenges_spec)
qed

theorem challenges_dampened_by_average_witness:
  "spec_subCatAverage schoolDampened exampleTeaching = 7 / 2
   \<and> scoreOf schoolDampened (exampleMetric ''m1'') = 1
   \<and> subCatChallenges exampleConstants schoolDampened exampleTeaching [] = []
   \<and> spec_subCatAverage schoolDampened exampleClimate = 5 / 2
   \<and> map (\<lambda>m. (metric_key m, scoreOf schoolDampened m))
         (spec_scoredMetrics schoolDampened exampleClimate) = [(''m7'', 1), (''m8'', 4)]
   \<and> subCatChallenges exampleConstants schoolDampened exampleClimate []
       = [challengeEntry exampleConstants exampleClimate (exampleMetric ''m7'')]
   \<and> map challenge_subCategory (challengesOf exampleConstants schoolDampened) = [''Climate'']"
proof -
  note t = challenges_dampened_by_average
             [of exampleConstants schoolDampened exampleTeaching]
  note c = challenges_dampened_by_average
             [of exampleConstants schoolDampened exampleClimate]
  have a1: "spec_subCatAverage schoolDampened exampleTeaching = 7 / 2"
    by code_simp
  have a2: "spec_subCatAverage schoolDampened exampleClimate = 5 / 2"
    by code_simp
  have m1: "scoreOf schoolDampened (exampleMetric ''m1'') = 1"
    by code_simp
  have sm: "map (\<lambda>m. (metric_key m, scoreOf schoolDampened m))
         (spec_scoredMetrics schoolDampened exampleClimate) = [(''m7'', 1), (''m8'', 4)]"
    by code_simp
  have low: "filter (\<lambda>m. scoreOf schoolDampened m \<le> 3)
               (spec_scoredMetrics schoolDampened exampleClimate) = [exampleMetric ''m7'']"
    by code_simp
  from t a1 have e1: "subCatChallenges exampleConstants schoolDampened exampleTeaching [] = []"
    by simp
  from c a2 have e2: "subCatChallenges exampleConstants schoolDampened exampleClimate []
       = [challengeEntry exampleConstants exampleClimate (exampleMetric ''m7'')]"
    by (simp add: low)
  have all: "allSubCategories exampleConstants = [exampleTeaching, exampleClimate]"
    by (simp add: allSubCategories_def exampleConstants_def)
  from t have "challengesOf exampleConstants schoolDampened
      = concat (map (\<lambda>sc. subCatChallenges exampleConstants schoolDampened sc [])
                    (allSubCategories exampleConstants))"
    by blast
  then have "challengesOf exampleConstants schoolDampened
      = [challengeEntry exampleConstants exampleClimate (exampleMetric ''m7'')]"
    by (simp add: all e1 e2)
  then have "map challenge_subCategory (challengesOf exampleConstants schoolDampened)
      = [''Climate'']"
    by (simp add: challengeEntry_def exampleClimate_def)
  with a1 a2 m1 sm e1 e2 show ?thesis by blast
qed

end
